theory Spec2Isabelle
  imports Complex_Main "HOL-Library.Multiset"
begin

section \<open>Data model (types.ts)\<close>

datatype Subject = Math | Portuguese

datatype Level = LevelOne | LevelTwo

text \<open>
  \<^verbatim>\<open>Option\<close> and \<^verbatim>\<open>Question\<close> of types.ts. Optional fields (\<^verbatim>\<open>illustration?\<close>,
  \<^verbatim>\<open>alt?\<close>) are options; the nested objects \<^verbatim>\<open>illustration\<close> and
  \<^verbatim>\<open>celebrationMedia\<close> are flattened into prefixed fields.
\<close>

record Option =
  opt_value :: string
  color :: string
  opt_illustration :: "string option"
  opt_alt :: "string option"

datatype MediaType = video | gif

record Question =
  qid :: string
  subject :: Subject
  level :: Level
  prompt :: string
  illustration_src :: string
  illustration_alt :: string
  options :: "Option list"
  correctAnswer :: string
  hint :: string
  celebration_type :: MediaType
  celebration_src :: string
  celebration_alt :: string

record Settings =
  isTtsEnabled :: bool
  isHighContrast :: bool
  reduceMotion :: bool

section \<open>shuffleArray (App.tsx, lines 248-255)\<close>

text \<open>
  \<^verbatim>\<open>Math.random\<close> is a parameter: \<open>rnd c\<close> is the value returned by the \<open>c\<close>-th call
  (counted from 0), a real number; the contract of \<^verbatim>\<open>Math.random\<close>, \<open>0 \<le> r < 1\<close>,
  is a hypothesis where it is needed. The destructuring assignment
  \<^verbatim>\<open>[a[i], a[j]] = [a[j], a[i]]\<close> reads both elements first and then writes
  \<^verbatim>\<open>a[i]\<close>, then \<^verbatim>\<open>a[j]\<close>.
\<close>

definition swap :: "'a list \<Rightarrow> nat \<Rightarrow> nat \<Rightarrow> 'a list" where
  "swap a i j = (let x = a ! j; y = a ! i in (a[i := x])[j := y])"

text \<open>
  The loop \<^verbatim>\<open>for (let i = n - 1; i > 0; i--)\<close>: the third argument is the loop
  variable \<open>i\<close>, the second the number of calls of \<^verbatim>\<open>Math.random\<close> made so far.
\<close>

fun shuffleLoop :: "(nat \<Rightarrow> real) \<Rightarrow> nat \<Rightarrow> nat \<Rightarrow> 'a list \<Rightarrow> 'a list" where
  "shuffleLoop rnd c 0 a = a"
| "shuffleLoop rnd c (Suc k) a =
     (let i = Suc k;
          j = nat \<lfloor>rnd c * real (i + 1)\<rfloor>
      in shuffleLoop rnd (c + 1) k (swap a i j))"

text \<open>
  For the empty array the loop starts at \<open>-1\<close> and does not run; the truncated
  subtraction \<open>0 - 1 = 0\<close> on \<open>nat\<close> gives the same: no iteration.
\<close>

definition shuffleArray :: "(nat \<Rightarrow> real) \<Rightarrow> 'a list \<Rightarrow> 'a list" where
  "shuffleArray rnd array = shuffleLoop rnd 0 (length array - 1) array"

text \<open>
  The \<^verbatim>\<open>useMemo\<close> of GamePage (lines 258-261). The question repository
  \<^verbatim>\<open>ALL_QUESTIONS\<close> lives in data.ts and is a parameter here.
\<close>

definition filtered :: "Question list \<Rightarrow> Subject \<Rightarrow> Level \<Rightarrow> Question list" where
  "filtered ALL_QUESTIONS sub lev =
     filter (\<lambda>q. subject q = sub \<and> level q = lev) ALL_QUESTIONS"

definition questions :: "(nat \<Rightarrow> real) \<Rightarrow> Question list \<Rightarrow> Subject \<Rightarrow> Level \<Rightarrow> Question list" where
  "questions rnd ALL_QUESTIONS sub lev = shuffleArray rnd (filtered ALL_QUESTIONS sub lev)"

section \<open>GamePage: component state and the browser around it\<close>

text \<open>
  The \<^verbatim>\<open>feedback\<close> state holds \<^verbatim>\<open>{correct, show} | null\<close>; the field \<^verbatim>\<open>show\<close> is
  called \<open>showModal\<close> here.
\<close>

record Feedback =
  correct :: bool
  showModal :: bool

text \<open>
  What the outside world sees of a session: speech, haptic pulses, the final
  \<^verbatim>\<open>alert\<close> (the reported score and the number of questions of its text
  \<^verbatim>\<open>Sua pontuacao: ${score + 1}/${questions.length}\<close>), the call of
  \<^verbatim>\<open>navigateHome\<close>, \<^verbatim>\<open>console.error\<close>, and the start of the two-step illustration
  request for a question.
\<close>

datatype Output =
    CancelSpeech
  | Speak string
  | Vibrate "nat list"
  | Alert nat nat
  | NavigateHome
  | ConsoleError
  | IllustrationRequest Question

text \<open>
  How the asynchronous request of \<^verbatim>\<open>generateIllustration\<close> ends: step 1
  (\<^verbatim>\<open>generateContent\<close>) throws, step 2 (\<^verbatim>\<open>generateImages\<close>, or reading the image
  out of its response) throws, or the image bytes arrive.
\<close>

datatype Outcome = PromptStepFailed | ImageStepFailed | Generated string

text \<open>
  The hooks of GamePage (lines 263-272) and, below them, the parts of the browser the
  handlers act on: the pending timers of \<^verbatim>\<open>window.setTimeout\<close> as (handle, delay)
  pairs, the next fresh handle, whether \<^verbatim>\<open>navigator.vibrate\<close> exists, the
  illustration requests in flight, and the outputs so far.
\<close>

record GamePage =
  currentIndex :: nat
  score :: nat
  isDragOver :: bool
  feedback :: "Feedback option"
  showHint :: bool
  hintTimeoutRef :: "nat option"
  isMounted :: bool
  illustrationUrl :: "string option"
  isGenerating :: bool
  timers :: "(nat \<times> nat) list"
  nextTimer :: nat
  canVibrate :: bool
  requests :: "Question list"
  outputs :: "Output list"

datatype Error = TypeError

definition initial :: "bool \<Rightarrow> GamePage" where
  "initial vib =
     \<lparr> currentIndex = 0, score = 0, isDragOver = False, feedback = None, showHint = False,
       hintTimeoutRef = None, isMounted = True, illustrationUrl = None, isGenerating = False,
       timers = [], nextTimer = 1, canVibrate = vib, requests = [], outputs = [] \<rparr>"

text \<open>
  \<^verbatim>\<open>questions[currentIndex]\<close> (line 275): reading a JavaScript array out of range
  gives \<^verbatim>\<open>undefined\<close>, here \<open>None\<close>; it does not throw.
\<close>

definition currentQuestion :: "Question list \<Rightarrow> GamePage \<Rightarrow> Question option" where
  "currentQuestion qs s =
     (if currentIndex s < length qs then Some (qs ! currentIndex s) else None)"


definition emit :: "Output \<Rightarrow> GamePage \<Rightarrow> GamePage" where
  "emit out s = s \<lparr> outputs := outputs s @ [out] \<rparr>"

text \<open>\<^verbatim>\<open>useSpeech\<close> (lines 32-43); the empty string is falsy.\<close>

definition speak :: "Settings \<Rightarrow> string \<Rightarrow> GamePage \<Rightarrow> GamePage" where
  "speak st text s =
     (if isTtsEnabled st \<and> text \<noteq> [] then emit (Speak text) (emit CancelSpeech s) else s)"

definition vibrate :: "nat list \<Rightarrow> GamePage \<Rightarrow> GamePage" where
  "vibrate pattern s = (if canVibrate s then emit (Vibrate pattern) s else s)"

definition setTimeout :: "nat \<Rightarrow> GamePage \<Rightarrow> nat \<times> GamePage" where
  "setTimeout delay s =
     (nextTimer s, s \<lparr> timers := timers s @ [(nextTimer s, delay)],
                       nextTimer := nextTimer s + 1 \<rparr>)"

definition clearTimeout :: "nat \<Rightarrow> GamePage \<Rightarrow> GamePage" where
  "clearTimeout h s = s \<lparr> timers := filter (\<lambda>t. fst t \<noteq> h) (timers s) \<rparr>"

definition pending :: "GamePage \<Rightarrow> nat list" where
  "pending s = map fst (timers s)"

subsection \<open>The illustration effect (lines 282-344)\<close>

text \<open>
  The synchronous start of \<^verbatim>\<open>generateIllustration\<close> (lines 292-294, up to the first
  \<^verbatim>\<open>await\<close>) and its completion (lines 324-339), which runs when the request ends.
\<close>

definition generateIllustration_start :: "Question \<Rightarrow> GamePage \<Rightarrow> GamePage" where
  "generateIllustration_start q s =
     (if \<not> isMounted s then s
      else emit (IllustrationRequest q)
             (s \<lparr> isGenerating := True, illustrationUrl := None,
                  requests := requests s @ [q] \<rparr>))"

definition generateIllustration_finally :: "GamePage \<Rightarrow> GamePage" where
  "generateIllustration_finally s = (if isMounted s then s \<lparr> isGenerating := False \<rparr> else s)"

definition generateIllustration_done :: "Question \<Rightarrow> Outcome \<Rightarrow> GamePage \<Rightarrow> GamePage" where
  "generateIllustration_done q out s =
     (case out of
        Generated base64ImageBytes \<Rightarrow>
          generateIllustration_finally
            (if isMounted s
             then s \<lparr> illustrationUrl := Some (''data:image/png;base64,'' @ base64ImageBytes) \<rparr>
             else s)
      | _ \<Rightarrow>
          (let s1 = emit ConsoleError s
           in generateIllustration_finally
                (if isMounted s1 then s1 \<lparr> illustrationUrl := Some (illustration_src q) \<rparr>
                 else s1)))"

definition questionEffect :: "Settings \<Rightarrow> Question list \<Rightarrow> GamePage \<Rightarrow> GamePage" where
  "questionEffect st qs s =
     (case currentQuestion qs s of
        None \<Rightarrow> s
      | Some q \<Rightarrow>
          (let s1 = speak st (prompt q) s
           in if reduceMotion st then s1 \<lparr> illustrationUrl := Some (illustration_src q) \<rparr>
              else generateIllustration_start q s1))"

subsection \<open>The handlers (lines 346-385)\<close>

text \<open>
  \<^verbatim>\<open>if (hintTimeoutRef.current)\<close> is a truthiness test: \<^verbatim>\<open>null\<close> and the number 0
  are both falsy. The reference keeps its value after the timer is cleared.
\<close>

definition resetAttemptState :: "GamePage \<Rightarrow> GamePage" where
  "resetAttemptState s =
     (let s1 = s \<lparr> isDragOver := False, feedback := None, showHint := False \<rparr>
      in case hintTimeoutRef s1 of
           None \<Rightarrow> s1
         | Some h \<Rightarrow> if h \<noteq> 0 then clearTimeout h s1 else s1)"

text \<open>
  \<^verbatim>\<open>currentQuestion.correctAnswer\<close> throws a TypeError when \<^verbatim>\<open>currentQuestion\<close> is
  \<^verbatim>\<open>undefined\<close>. \<^verbatim>\<open>===\<close> on two strings is equality of their contents.
\<close>

definition handleDrop :: "Question list \<Rightarrow> GamePage \<Rightarrow> string \<Rightarrow> Error + GamePage" where
  "handleDrop qs s droppedValue =
     (case currentQuestion qs s of
        None \<Rightarrow> Inl TypeError
      | Some q \<Rightarrow>
          (let isCorrect = (droppedValue = correctAnswer q)
           in if isCorrect
              then Inr (vibrate [100]
                     (s \<lparr> score := score s + 1,
                          feedback := Some \<lparr> correct = True, showModal = True \<rparr> \<rparr>))
              else
                (let s1 = vibrate [200, 50, 200]
                            (s \<lparr> feedback := Some \<lparr> correct = False, showModal = True \<rparr> \<rparr>);
                     (h, s2) = setTimeout 1000 s1
                 in Inr (s2 \<lparr> hintTimeoutRef := Some h \<rparr>))))"

text \<open>
  \<^verbatim>\<open>feedback?.correct\<close> is \<^verbatim>\<open>undefined\<close>, hence falsy, when \<^verbatim>\<open>feedback\<close> is
  \<^verbatim>\<open>null\<close>. The comparison \<^verbatim>\<open>currentIndex < questions.length - 1\<close> is on numbers,
  so it is made on \<open>int\<close>: for the empty list the right-hand side is \<open>-1\<close>.
\<close>

definition feedbackCorrect :: "GamePage \<Rightarrow> bool" where
  "feedbackCorrect s = (case feedback s of None \<Rightarrow> False | Some f \<Rightarrow> correct f)"

definition handleCloseFeedback :: "Question list \<Rightarrow> GamePage \<Rightarrow> GamePage" where
  "handleCloseFeedback qs s =
     resetAttemptState
       (if feedbackCorrect s
        then (if int (currentIndex s) < int (length qs) - 1
              then s \<lparr> currentIndex := currentIndex s + 1 \<rparr>
              else emit NavigateHome (emit (Alert (score s + 1) (length qs)) s))
        else s)"

subsection \<open>Rendering (lines 387-445)\<close>

datatype IllustrationView = Spinner | Image string

text \<open>
  \<^verbatim>\<open>illustrationUrl || currentQuestion.illustration.src\<close>: \<^verbatim>\<open>null\<close> and the empty
  string are falsy.
\<close>

definition displayedIllustration :: "Question \<Rightarrow> GamePage \<Rightarrow> IllustrationView" where
  "displayedIllustration q s =
     (if isGenerating s then Spinner
      else Image (case illustrationUrl s of
                    None \<Rightarrow> illustration_src q
                  | Some u \<Rightarrow> if u \<noteq> [] then u else illustration_src q))"

text \<open>
  The screen: the placeholder \<^verbatim>\<open>Carregando questoes...\<close> when there is no current
  question; otherwise the game screen with the question, the stars (count, total), the
  illustration, the hint when shown, and the feedback modal (\<open>Some isCorrect\<close> when open).
\<close>

datatype View =
    LoadingQuestions
  | GameScreen Question "nat \<times> nat" IllustrationView "string option" "bool option"

definition render :: "Question list \<Rightarrow> GamePage \<Rightarrow> View" where
  "render qs s =
     (case currentQuestion qs s of
        None \<Rightarrow> LoadingQuestions
      | Some q \<Rightarrow>
          GameScreen q (score s, length qs) (displayedIllustration q s)
            (if showHint s then Some (hint q) else None)
            (case feedback s of
               None \<Rightarrow> None
             | Some f \<Rightarrow> if showModal f then Some (correct f) else None))"

subsection \<open>Events of a session\<close>

text \<open>
  One event is one call of a handler by the browser or by React:
  \<^item> \<open>Drop v\<close>: one call of \<^verbatim>\<open>handleDrop\<close> with payload \<open>v\<close>;
  \<^item> \<open>CloseFeedback\<close>: the button of the feedback modal (\<^verbatim>\<open>handleCloseFeedback\<close>);
  \<^item> \<open>DragEnter\<close>, \<open>DragLeave\<close>: \<^verbatim>\<open>setIsDragOver\<close> (lines 421-422);
  \<^item> \<open>HomeClick\<close>: the home button of the header (\<^verbatim>\<open>navigateHome\<close>, line 394);
  \<^item> \<open>TimerFire h\<close>: the timer with handle \<open>h\<close> expires and runs
    \<^verbatim>\<open>setShowHint(true)\<close>;
  \<^item> \<open>IllustrationDone q out\<close>: the request started for \<open>q\<close> ends with \<open>out\<close>.
\<close>

datatype Event =
    Drop string
  | CloseFeedback
  | DragEnter
  | DragLeave
  | HomeClick
  | TimerFire nat
  | IllustrationDone Question Outcome

text \<open>
  \<^verbatim>\<open>handleDrop\<close> is the \<^verbatim>\<open>onDrop\<close> of the DropZone's element (lines 109, 426) and also
  of the element that encloses the DropZone (line 423). The handler does not stop the
  propagation, so one drop on the DropZone bubbles to the enclosing element and calls
  \<^verbatim>\<open>handleDrop\<close> twice with the same payload.
\<close>

definition dropOnDropZone :: "string \<Rightarrow> Event list" where
  "dropOnDropZone v = [Drop v, Drop v]"

text \<open>
  The handlers exist only on the game screen of a mounted component; the button of the
  modal only while the modal is open.
\<close>

definition modalOpen :: "GamePage \<Rightarrow> bool" where
  "modalOpen s = (case feedback s of None \<Rightarrow> False | Some f \<Rightarrow> showModal f)"

definition enabled :: "Question list \<Rightarrow> GamePage \<Rightarrow> Event \<Rightarrow> bool" where
  "enabled qs s e =
     (isMounted s \<and> currentQuestion qs s \<noteq> None \<and> (e = CloseFeedback \<longrightarrow> modalOpen s))"

definition handler :: "Question list \<Rightarrow> GamePage \<Rightarrow> Event \<Rightarrow> Error + GamePage" where
  "handler qs s e =
     (case e of
        Drop v \<Rightarrow> handleDrop qs s v
      | CloseFeedback \<Rightarrow> Inr (handleCloseFeedback qs s)
      | DragEnter \<Rightarrow> Inr (s \<lparr> isDragOver := True \<rparr>)
      | DragLeave \<Rightarrow> Inr (s \<lparr> isDragOver := False \<rparr>)
      | HomeClick \<Rightarrow> Inr (emit NavigateHome s)
      | _ \<Rightarrow> Inr s)"

text \<open>
  After a handler has run React renders again: when \<^verbatim>\<open>navigateHome\<close> was called the
  parent leaves the game page and the component unmounts (the cleanup of line 279;
  nothing else is cleaned up); when the current question changed, the illustration
  effect runs for the new question.
\<close>

definition afterHandler :: "Settings \<Rightarrow> Question list \<Rightarrow> GamePage \<Rightarrow> GamePage \<Rightarrow> GamePage" where
  "afterHandler st qs s s' =
     (if NavigateHome \<in> set (outputs s') then s' \<lparr> isMounted := False \<rparr>
      else if currentIndex s' \<noteq> currentIndex s then questionEffect st qs s'
      else s')"

definition timerFire :: "nat \<Rightarrow> GamePage \<Rightarrow> GamePage" where
  "timerFire h s =
     (if h \<in> set (pending s)
      then (let s1 = clearTimeout h s
            in if isMounted s1 then s1 \<lparr> showHint := True \<rparr> else s1)
      else s)"

definition dispatch :: "Settings \<Rightarrow> Question list \<Rightarrow> GamePage \<Rightarrow> Event \<Rightarrow> Error + GamePage" where
  "dispatch st qs s e =
     (case e of
        TimerFire h \<Rightarrow> Inr (timerFire h s)
      | IllustrationDone q out \<Rightarrow>
          Inr (if q \<in> set (requests s)
               then generateIllustration_done q out (s \<lparr> requests := remove1 q (requests s) \<rparr>)
               else s)
      | _ \<Rightarrow>
          (if enabled qs s e
           then (case handler qs s e of
                   Inl err \<Rightarrow> Inl err
                 | Inr s' \<Rightarrow> Inr (afterHandler st qs s s'))
           else Inr s))"

fun run :: "Settings \<Rightarrow> Question list \<Rightarrow> GamePage \<Rightarrow> Event list \<Rightarrow> Error + GamePage" where
  "run st qs s [] = Inr s"
| "run st qs s (e # es) =
     (case dispatch st qs s e of
        Inl err \<Rightarrow> Inl err
      | Inr s' \<Rightarrow> run st qs s' es)"

text \<open>Mounting the component: the initial state, then the first run of the effect.\<close>

definition mount :: "Settings \<Rightarrow> Question list \<Rightarrow> bool \<Rightarrow> GamePage" where
  "mount st qs vib = questionEffect st qs (initial vib)"

section \<open>Sample data\<close>

text \<open>Two questions in the shape of the repository's records, used to evaluate the model.\<close>

definition Q1 :: Question where
  "Q1 = \<lparr> qid = ''q1'', subject = Math, level = LevelOne, prompt = ''2 + 2'',
          illustration_src = ''q1.png'', illustration_alt = ''two plus two'',
          options = [\<lparr> opt_value = ''3'', color = ''bg-red-500'',
                       opt_illustration = None, opt_alt = None \<rparr>,
                     \<lparr> opt_value = ''4'', color = ''bg-blue-500'',
                       opt_illustration = None, opt_alt = None \<rparr>],
          correctAnswer = ''4'', hint = ''count'', celebration_type = gif,
          celebration_src = ''ok.gif'', celebration_alt = ''ok'' \<rparr>"

definition Q2 :: Question where
  "Q2 = \<lparr> qid = ''q2'', subject = Math, level = LevelOne, prompt = ''meow'',
          illustration_src = ''q2.png'', illustration_alt = ''an animal'',
          options = [\<lparr> opt_value = ''dog'', color = ''bg-red-500'',
                       opt_illustration = None, opt_alt = None \<rparr>,
                     \<lparr> opt_value = ''cat'', color = ''bg-blue-500'',
                       opt_illustration = None, opt_alt = None \<rparr>],
          correctAnswer = ''cat'', hint = ''it purrs'', celebration_type = gif,
          celebration_src = ''ok.gif'', celebration_alt = ''ok'' \<rparr>"

definition Q3 :: Question where
  "Q3 = Q1 \<lparr> qid := ''q3'', subject := Portuguese \<rparr>"

text \<open>
  Two settings records: the defaults of \<^verbatim>\<open>App\<close> (line 454), and one with speech
  and reduced motion switched on.
\<close>

definition defaultSettings :: Settings where
  "defaultSettings = \<lparr> isTtsEnabled = False, isHighContrast = False, reduceMotion = False \<rparr>"

definition reducedMotion :: Settings where
  "reducedMotion = \<lparr> isTtsEnabled = True, isHighContrast = False, reduceMotion = True \<rparr>"

text \<open>
  Three states of a session on \<open>[Q2, Q1]\<close> (reduced motion, no haptics): after one wrong
  drop; after a wrong drop and then the right one; after two wrong drops and the right
  one. The theorems below show that the session reaches them.
\<close>

definition wrongDropped :: GamePage where
  "wrongDropped =
     \<lparr> currentIndex = 0, score = 0, isDragOver = False,
       feedback = Some \<lparr> correct = False, showModal = True \<rparr>, showHint = False,
       hintTimeoutRef = Some 1, isMounted = True, illustrationUrl = Some ''q2.png'',
       isGenerating = False, timers = [(1, 1000)], nextTimer = 2, canVibrate = False,
       requests = [], outputs = [CancelSpeech, Speak ''meow''] \<rparr>"

definition retryCorrect :: GamePage where
  "retryCorrect =
     wrongDropped \<lparr> score := 1, feedback := Some \<lparr> correct = True, showModal = True \<rparr> \<rparr>"

definition staleTimerCorrect :: GamePage where
  "staleTimerCorrect =
     retryCorrect \<lparr> hintTimeoutRef := Some 2, timers := [(1, 1000), (2, 1000)],
                    nextTimer := 3 \<rparr>"


definition wrongThenRight :: "Event list" where
  "wrongThenRight =
     dropOnDropZone ''dog'' @ [CloseFeedback] @ dropOnDropZone ''cat'' @ [CloseFeedback]"

definition failureAfterAdvance :: "Event list" where
  "failureAfterAdvance =
     dropOnDropZone ''cat'' @ [CloseFeedback, IllustrationDone Q2 ImageStepFailed]"

lemmas handler_defs =
  currentQuestion_def emit_def speak_def vibrate_def setTimeout_def clearTimeout_def pending_def
  generateIllustration_start_def generateIllustration_finally_def generateIllustration_done_def
  questionEffect_def resetAttemptState_def handleDrop_def feedbackCorrect_def
  handleCloseFeedback_def

lemmas session_defs =
  handler_defs initial_def mount_def modalOpen_def enabled_def handler_def afterHandler_def
  timerFire_def dispatch_def dropOnDropZone_def

lemmas sample_defs = Q1_def Q2_def Q3_def defaultSettings_def reducedMotion_def

lemmas state_defs = wrongDropped_def retryCorrect_def staleTimerCorrect_def

lemmas event_defs = wrongThenRight_def failureAfterAdvance_def

section \<open>The shuffle is a permutation\<close>

lemma swap_length: "length (swap a i j) = length a"
  by (simp add: swap_def)

lemma swap_mset: "i < length a \<Longrightarrow> j < length a \<Longrightarrow> mset (swap a i j) = mset a"
  by (simp add: swap_def mset_swap)

lemma random_index_bound:
  assumes "0 \<le> r" and "r < 1"
  shows "nat \<lfloor>r * real (i + 1)\<rfloor> \<le> i"
proof -
  have "r * real (i + 1) < real (i + 1)"
    using assms by simp
  then have "\<lfloor>r * real (i + 1)\<rfloor> < int (i + 1)"
    by (simp add: floor_less_iff)
  then show ?thesis
    by simp
qed

lemma shuffleLoop_mset:
  assumes "\<forall>n. 0 \<le> rnd n \<and> rnd n < 1"
  shows "k < length a \<or> k = 0 \<Longrightarrow> mset (shuffleLoop rnd c k a) = mset a"
proof (induction k arbitrary: c a)
  case 0
  show ?case by simp
next
  case (Suc k)
  then have i: "Suc k < length a" by simp
  have j: "nat \<lfloor>rnd c * real (Suc k + 1)\<rfloor> \<le> Suc k"
    using assms random_index_bound by blast
  have "mset (swap a (Suc k) (nat \<lfloor>rnd c * real (Suc k + 1)\<rfloor>)) = mset a"
    using i j by (intro swap_mset) auto
  moreover have "k < length (swap a (Suc k) (nat \<lfloor>rnd c * real (Suc k + 1)\<rfloor>)) \<or> k = 0"
    using i by (simp add: swap_length)
  ultimately show ?case
    using Suc.IH by (simp add: Let_def)
qed

lemma shuffleArray_mset:
  assumes "\<forall>n. 0 \<le> rnd n \<and> rnd n < 1"
  shows "mset (shuffleArray rnd xs) = mset xs"
proof -
  have "length xs - 1 < length xs \<or> length xs - 1 = 0"
    by (cases xs) auto
  then show ?thesis
    unfolding shuffleArray_def using assms by (rule shuffleLoop_mset [rotated])
qed

text \<open>
  Claim C6. For every question repository, subject and level, and every run of
  \<^verbatim>\<open>Math.random\<close> (values in \<open>[0, 1)\<close>), the session's question list is a
  permutation of the filtered set: the same multiset of question records, hence of
  identifiers, and the same length.
\<close>

theorem questions_permutation:
  assumes "\<forall>n. 0 \<le> rnd n \<and> rnd n < 1"
  shows "mset (questions rnd ALL_QUESTIONS sub lev) = mset (filtered ALL_QUESTIONS sub lev)
       \<and> length (questions rnd ALL_QUESTIONS sub lev) = length (filtered ALL_QUESTIONS sub lev)
       \<and> mset (map qid (questions rnd ALL_QUESTIONS sub lev))
           = mset (map qid (filtered ALL_QUESTIONS sub lev))"
proof -
  have m: "mset (questions rnd ALL_QUESTIONS sub lev) = mset (filtered ALL_QUESTIONS sub lev)"
    unfolding questions_def using assms by (rule shuffleArray_mset)
  have "length (questions rnd ALL_QUESTIONS sub lev) = length (filtered ALL_QUESTIONS sub lev)"
    using m by (rule mset_eq_length)
  moreover have "mset (map qid (questions rnd ALL_QUESTIONS sub lev))
      = mset (map qid (filtered ALL_QUESTIONS sub lev))"
    using m by (metis mset_map)
  ultimately show ?thesis
    using m by simp
qed

theorem questions_permutation_witness:
  "(\<forall>n. (0::real) \<le> (\<lambda>_. 1 / 4) n \<and> (\<lambda>_. 1 / 4 :: real) n < 1)
   \<and> questions (\<lambda>_. 1 / 4) [Q1, Q2, Q3] Math LevelOne = [Q2, Q1]
   \<and> filtered [Q1, Q2, Q3] Math LevelOne = [Q1, Q2]
   \<and> mset (questions (\<lambda>_. 1 / 4) [Q1, Q2, Q3] Math LevelOne)
       = mset (filtered [Q1, Q2, Q3] Math LevelOne)
   \<and> length (questions (\<lambda>_. 1 / 4) [Q1, Q2, Q3] Math LevelOne)
       = length (filtered [Q1, Q2, Q3] Math LevelOne)"
  using questions_permutation [of "\<lambda>_. 1 / 4" "[Q1, Q2, Q3]" Math LevelOne]
  by (simp add: questions_def filtered_def shuffleArray_def swap_def sample_defs)

section \<open>Score and final report\<close>

text \<open>
  Claim C1 asks that the score never exceeds the number of questions and grows at most
  once per question. The code does not keep that: in a session of one question, one drop
  of the right option on the DropZone calls \<^verbatim>\<open>handleDrop\<close> twice (once for each of the
  two elements that carry it as \<^verbatim>\<open>onDrop\<close>), and each call adds one to the score: the
  score is 2 with 1 question.
\<close>

theorem one_drop_scores_twice:
  "map_sum id score
     (run defaultSettings [Q1] (mount defaultSettings [Q1] False) (dropOnDropZone ''4''))
     = Inr 2
   \<and> length [Q1] = 1"
  by (simp add: session_defs sample_defs)

text \<open>
  Claim C3 asks that the score reported at the end of the session is the number of
  questions answered correctly. The code reports one more. In a session of one question,
  with one call of \<^verbatim>\<open>handleDrop\<close> for the right answer and then the dismissal, the
  score is 1 and the alert reports 2 of 1. In the session \<open>[Q2, Q1]\<close> with a wrong
  drop, the right one, the dismissal, the right drop and the last dismissal, the score
  is 2 and the alert reports 3 of 2.
\<close>

theorem final_report_off_by_one:
  "map_sum id score
     (run reducedMotion [Q1] (mount reducedMotion [Q1] False) [Drop ''4'', CloseFeedback])
     = Inr 1
   \<and> map_sum id outputs
     (run reducedMotion [Q1] (mount reducedMotion [Q1] False) [Drop ''4'', CloseFeedback])
     = Inr [CancelSpeech, Speak ''2 + 2'', Alert 2 1, NavigateHome]
   \<and> map_sum id score
     (run reducedMotion [Q2, Q1] (mount reducedMotion [Q2, Q1] False)
        [Drop ''dog'', CloseFeedback, Drop ''cat'', CloseFeedback, Drop ''4'', CloseFeedback])
     = Inr 2
   \<and> map_sum id outputs
     (run reducedMotion [Q2, Q1] (mount reducedMotion [Q2, Q1] False)
        [Drop ''dog'', CloseFeedback, Drop ''cat'', CloseFeedback, Drop ''4'', CloseFeedback])
     = Inr [CancelSpeech, Speak ''meow'', CancelSpeech, Speak ''2 + 2'', Alert 3 2,
            NavigateHome]"
  by (simp add: session_defs sample_defs)

section \<open>Drops: feedback and the hint timer\<close>

text \<open>
  Claim C2 asks that a wrong drop schedules exactly one hint timer and cancels the one
  that was pending. The code does not keep that: \<^verbatim>\<open>handleDrop\<close> stores the new handle
  in \<^verbatim>\<open>hintTimeoutRef\<close> over the old one without clearing the old timer, and one drop
  on the DropZone calls it twice. After one wrong drop on \<open>Q2\<close> two timers are pending
  and only the handle of the second is stored; the dismissal then cancels the second and
  the first stays pending.
\<close>

theorem wrong_drop_schedules_two_timers:
  "map_sum id pending
     (run reducedMotion [Q2, Q1] (mount reducedMotion [Q2, Q1] False) (dropOnDropZone ''dog''))
     = Inr [1, 2]
   \<and> map_sum id hintTimeoutRef
     (run reducedMotion [Q2, Q1] (mount reducedMotion [Q2, Q1] False) (dropOnDropZone ''dog''))
     = Inr (Some 2)
   \<and> map_sum id pending
     (run reducedMotion [Q2, Q1] (mount reducedMotion [Q2, Q1] False)
        (dropOnDropZone ''dog'' @ [CloseFeedback]))
     = Inr [1]"
  by (simp add: session_defs sample_defs)

text \<open>The three sample states are states of the session.\<close>

lemma sample_states_reached:
  "run reducedMotion [Q2, Q1] (mount reducedMotion [Q2, Q1] False) [Drop ''dog'']
     = Inr wrongDropped"
  "run reducedMotion [Q2, Q1] (mount reducedMotion [Q2, Q1] False) [Drop ''dog'', Drop ''cat'']
     = Inr retryCorrect"
  "run reducedMotion [Q2, Q1] (mount reducedMotion [Q2, Q1] False)
     [Drop ''dog'', Drop ''dog'', Drop ''cat''] = Inr staleTimerCorrect"
  by (simp_all add: session_defs sample_defs state_defs)

text \<open>
  What one call of \<^verbatim>\<open>handleDrop\<close> does on a current question: for the question's
  correct answer (as strings), feedback becomes correct, the score grows by one and no
  timer is scheduled; for any other value feedback becomes incorrect, the score is
  unchanged, and the call schedules one timer of 1000 ms and stores its handle; the
  timers pending before the call stay pending.
\<close>


theorem handleDrop_feedback_and_timer:
  assumes "currentQuestion qs s = Some q"
  shows "\<exists>s'. handleDrop qs s v = Inr s' \<and> currentIndex s' = currentIndex s \<and>
           (if v = correctAnswer q
            then feedback s' = Some \<lparr> correct = True, showModal = True \<rparr>
               \<and> score s' = score s + 1
               \<and> timers s' = timers s \<and> hintTimeoutRef s' = hintTimeoutRef s
            else feedback s' = Some \<lparr> correct = False, showModal = True \<rparr>
               \<and> score s' = score s
               \<and> timers s' = timers s @ [(nextTimer s, 1000)]
               \<and> hintTimeoutRef s' = Some (nextTimer s))"
  using assms by (simp add: handleDrop_def vibrate_def emit_def setTimeout_def)

theorem handleDrop_feedback_and_timer_witness:
  "currentQuestion [Q2, Q1] wrongDropped = Some Q2
   \<and> map_sum id (\<lambda>s. (feedback s, score s, timers s, hintTimeoutRef s))
       (handleDrop [Q2, Q1] wrongDropped ''cat'')
     = Inr (Some \<lparr> correct = True, showModal = True \<rparr>, 1, [(1, 1000)], Some 1)
   \<and> map_sum id (\<lambda>s. (feedback s, score s, timers s, hintTimeoutRef s))
       (handleDrop [Q2, Q1] wrongDropped ''bird'')
     = Inr (Some \<lparr> correct = False, showModal = True \<rparr>, 0, [(1, 1000), (2, 1000)], Some 2)"
  using handleDrop_feedback_and_timer [of "[Q2, Q1]" wrongDropped Q2 "''cat''"]
    handleDrop_feedback_and_timer [of "[Q2, Q1]" wrongDropped Q2 "''bird''"]
  by (simp add: handler_defs sample_defs state_defs)

section \<open>Dismissing feedback\<close>

lemma resetAttemptState_fields:
  "currentIndex (resetAttemptState s) = currentIndex s"
  "score (resetAttemptState s) = score s"
  "outputs (resetAttemptState s) = outputs s"
  "isMounted (resetAttemptState s) = isMounted s"
  "illustrationUrl (resetAttemptState s) = illustrationUrl s"
  "isGenerating (resetAttemptState s) = isGenerating s"
  "requests (resetAttemptState s) = requests s"
  "hintTimeoutRef (resetAttemptState s) = hintTimeoutRef s"
  "nextTimer (resetAttemptState s) = nextTimer s"
  "canVibrate (resetAttemptState s) = canVibrate s"
  "isDragOver (resetAttemptState s) = False"
  "feedback (resetAttemptState s) = None"
  "showHint (resetAttemptState s) = False"
  by (simp_all add: resetAttemptState_def clearTimeout_def Let_def split: option.splits)

lemma resetAttemptState_timers:
  "timers (resetAttemptState s) =
     filter (\<lambda>t. fst t = 0 \<or> Some (fst t) \<noteq> hintTimeoutRef s) (timers s)"
proof (cases "hintTimeoutRef s")
  case None
  then show ?thesis
    by (simp add: resetAttemptState_def)
next
  case (Some h)
  show ?thesis
  proof (cases "h = 0")
    case True
    have "filter (\<lambda>t. fst t = 0 \<or> fst t \<noteq> 0) (timers s) = timers s"
      by (simp add: filter_id_conv) auto
    then show ?thesis
      using Some True by (simp add: resetAttemptState_def)
  next
    case False
    have "filter (\<lambda>t. fst t = 0 \<or> fst t \<noteq> h) (timers s) = filter (\<lambda>t. fst t \<noteq> h) (timers s)"
      using False by (intro filter_cong) auto
    then show ?thesis
      using Some False by (simp add: resetAttemptState_def clearTimeout_def)
  qed
qed

lemma resetAttemptState_pending:
  "pending (resetAttemptState s) =
     filter (\<lambda>h. h = 0 \<or> Some h \<noteq> hintTimeoutRef s) (pending s)"
  by (simp add: pending_def resetAttemptState_timers filter_map o_def)

text \<open>
  Claim C4 asks that no hint timer is pending once correct feedback is dismissed on a
  question that is not the last. The code does not keep that: after a wrong drop on the
  DropZone, its dismissal, the right drop and its dismissal, the session is on \<open>Q1\<close>
  with feedback none and the hint hidden, but timer 1 of the wrong drop on \<open>Q2\<close> is
  still pending: its handle was overwritten by the second call of \<^verbatim>\<open>handleDrop\<close>, so
  \<^verbatim>\<open>resetAttemptState\<close> cannot clear it. When it expires, the hint of \<open>Q1\<close> is shown
  before any drop on \<open>Q1\<close>.
\<close>

theorem stale_hint_on_next_question:
  "map_sum id currentIndex
     (run reducedMotion [Q2, Q1] (mount reducedMotion [Q2, Q1] False) wrongThenRight) = Inr 1
   \<and> map_sum id feedback
     (run reducedMotion [Q2, Q1] (mount reducedMotion [Q2, Q1] False) wrongThenRight) = Inr None
   \<and> map_sum id showHint
     (run reducedMotion [Q2, Q1] (mount reducedMotion [Q2, Q1] False) wrongThenRight) = Inr False
   \<and> map_sum id pending
     (run reducedMotion [Q2, Q1] (mount reducedMotion [Q2, Q1] False) wrongThenRight) = Inr [1]
   \<and> map_sum id currentIndex
     (run reducedMotion [Q2, Q1] (mount reducedMotion [Q2, Q1] False)
        (wrongThenRight @ [TimerFire 1])) = Inr 1
   \<and> map_sum id showHint
     (run reducedMotion [Q2, Q1] (mount reducedMotion [Q2, Q1] False)
        (wrongThenRight @ [TimerFire 1])) = Inr True"
  by (simp add: session_defs sample_defs event_defs)

text \<open>
  What the dismissal of correct feedback does on a question that is not the last: the
  index advances by exactly 1, the score and the outputs are unchanged, the drag-over
  flag is false, feedback is none, the hint is hidden, and the timer whose handle is
  stored in \<^verbatim>\<open>hintTimeoutRef\<close> is cancelled; no timer is added, and no timer is pending
  afterwards when every timer pending before was the stored one.
\<close>


theorem closeFeedback_correct_advances:
  assumes "feedbackCorrect s" and "int (currentIndex s) < int (length qs) - 1"
  shows "currentIndex (handleCloseFeedback qs s) = currentIndex s + 1
       \<and> score (handleCloseFeedback qs s) = score s
       \<and> outputs (handleCloseFeedback qs s) = outputs s
       \<and> \<not> isDragOver (handleCloseFeedback qs s)
       \<and> feedback (handleCloseFeedback qs s) = None
       \<and> \<not> showHint (handleCloseFeedback qs s)
       \<and> (\<forall>h. hintTimeoutRef s = Some h \<and> h \<noteq> 0 \<longrightarrow> h \<notin> set (pending (handleCloseFeedback qs s)))
       \<and> set (pending (handleCloseFeedback qs s)) \<subseteq> set (pending s)
       \<and> ((\<forall>h \<in> set (pending s). h \<noteq> 0 \<and> hintTimeoutRef s = Some h)
            \<longrightarrow> pending (handleCloseFeedback qs s) = [])"
proof -
  have eq: "handleCloseFeedback qs s = resetAttemptState (s \<lparr> currentIndex := currentIndex s + 1 \<rparr>)"
    using assms by (simp add: handleCloseFeedback_def)
  have p: "pending (handleCloseFeedback qs s)
      = filter (\<lambda>h. h = 0 \<or> Some h \<noteq> hintTimeoutRef s) (pending s)"
    unfolding eq resetAttemptState_pending by (simp add: pending_def)
  have "(\<forall>h \<in> set (pending s). h \<noteq> 0 \<and> hintTimeoutRef s = Some h)
      \<longrightarrow> pending (handleCloseFeedback qs s) = []"
    unfolding p by (auto simp: filter_empty_conv)
  moreover have "\<forall>h. hintTimeoutRef s = Some h \<and> h \<noteq> 0 \<longrightarrow> h \<notin> set (pending (handleCloseFeedback qs s))"
    unfolding p by auto
  moreover have "set (pending (handleCloseFeedback qs s)) \<subseteq> set (pending s)"
    unfolding p by auto
  ultimately show ?thesis
    unfolding eq by (simp add: resetAttemptState_fields)
qed

theorem closeFeedback_correct_advances_witness:
  "run reducedMotion [Q2, Q1] (mount reducedMotion [Q2, Q1] False) [Drop ''dog'', Drop ''cat'']
     = Inr retryCorrect
   \<and> feedbackCorrect retryCorrect
   \<and> int (currentIndex retryCorrect) < int (length [Q2, Q1]) - 1
   \<and> pending retryCorrect = [1] \<and> hintTimeoutRef retryCorrect = Some 1
   \<and> currentIndex (handleCloseFeedback [Q2, Q1] retryCorrect) = 1
   \<and> score (handleCloseFeedback [Q2, Q1] retryCorrect) = 1
   \<and> \<not> isDragOver (handleCloseFeedback [Q2, Q1] retryCorrect)
   \<and> feedback (handleCloseFeedback [Q2, Q1] retryCorrect) = None
   \<and> \<not> showHint (handleCloseFeedback [Q2, Q1] retryCorrect)
   \<and> pending (handleCloseFeedback [Q2, Q1] retryCorrect) = []"
  using closeFeedback_correct_advances [of retryCorrect "[Q2, Q1]"]
  by (simp add: session_defs sample_defs state_defs)

text \<open>
  Claim C5. Dismissing incorrect feedback changes neither the current index (so the
  player stays on the same question) nor the score, produces no output, and clears the
  attempt: feedback none, hint hidden, drag-over flag false, and the hint timer whose
  handle is stored is cancelled.
\<close>

theorem closeFeedback_incorrect_stays:
  assumes "feedback s = Some f" and "\<not> correct f"
  shows "currentIndex (handleCloseFeedback qs s) = currentIndex s
       \<and> currentQuestion qs (handleCloseFeedback qs s) = currentQuestion qs s
       \<and> score (handleCloseFeedback qs s) = score s
       \<and> outputs (handleCloseFeedback qs s) = outputs s
       \<and> feedback (handleCloseFeedback qs s) = None
       \<and> \<not> showHint (handleCloseFeedback qs s)
       \<and> \<not> isDragOver (handleCloseFeedback qs s)
       \<and> (\<forall>h. hintTimeoutRef s = Some h \<and> h \<noteq> 0 \<longrightarrow> h \<notin> set (pending (handleCloseFeedback qs s)))"
proof -
  have eq: "handleCloseFeedback qs s = resetAttemptState s"
    using assms by (simp add: handleCloseFeedback_def feedbackCorrect_def)
  have "\<forall>h. hintTimeoutRef s = Some h \<and> h \<noteq> 0 \<longrightarrow> h \<notin> set (pending (resetAttemptState s))"
    by (simp add: resetAttemptState_pending)
  then show ?thesis
    unfolding eq by (simp add: resetAttemptState_fields currentQuestion_def)
qed

theorem closeFeedback_incorrect_stays_witness:
  "feedback wrongDropped = Some \<lparr> correct = False, showModal = True \<rparr>
   \<and> \<not> correct \<lparr> correct = False, showModal = True \<rparr>
   \<and> currentIndex wrongDropped = 0 \<and> score wrongDropped = 0
   \<and> hintTimeoutRef wrongDropped = Some 1 \<and> pending wrongDropped = [1]
   \<and> currentIndex (handleCloseFeedback [Q2, Q1] wrongDropped) = 0
   \<and> score (handleCloseFeedback [Q2, Q1] wrongDropped) = 0
   \<and> feedback (handleCloseFeedback [Q2, Q1] wrongDropped) = None
   \<and> \<not> showHint (handleCloseFeedback [Q2, Q1] wrongDropped)
   \<and> pending (handleCloseFeedback [Q2, Q1] wrongDropped) = []"
  using closeFeedback_incorrect_stays
          [of wrongDropped "\<lparr> correct = False, showModal = True \<rparr>" "[Q2, Q1]"]
  by (simp add: handler_defs state_defs)

text \<open>
  Claim C10. When \<^verbatim>\<open>handleCloseFeedback\<close> runs with no feedback set, the state changes
  in the attempt fields only: the drag-over flag and the hint become false, feedback stays
  none and the timer of the stored handle is cleared. The index and the score are
  unchanged, and nothing is output: no alert and no call of \<^verbatim>\<open>navigateHome\<close>, so the
  session is not completed.
\<close>

theorem closeFeedback_without_feedback:
  assumes "feedback s = None"
  shows "handleCloseFeedback qs s =
           s \<lparr> isDragOver := False, showHint := False,
               timers := filter (\<lambda>t. fst t = 0 \<or> Some (fst t) \<noteq> hintTimeoutRef s) (timers s) \<rparr>
       \<and> currentIndex (handleCloseFeedback qs s) = currentIndex s
       \<and> score (handleCloseFeedback qs s) = score s
       \<and> outputs (handleCloseFeedback qs s) = outputs s
       \<and> isMounted (handleCloseFeedback qs s) = isMounted s
       \<and> feedback (handleCloseFeedback qs s) = None"
proof -
  have eq: "handleCloseFeedback qs s = resetAttemptState s"
    using assms by (simp add: handleCloseFeedback_def feedbackCorrect_def)
  have "resetAttemptState s =
      s \<lparr> isDragOver := False, showHint := False,
          timers := filter (\<lambda>t. fst t = 0 \<or> Some (fst t) \<noteq> hintTimeoutRef s) (timers s) \<rparr>"
    using assms resetAttemptState_timers [of s] resetAttemptState_fields [of s]
    by (intro GamePage.equality) simp_all
  then show ?thesis
    unfolding eq by (simp add: assms)
qed

theorem closeFeedback_without_feedback_witness:
  "feedback (wrongDropped \<lparr> feedback := None, isDragOver := True, showHint := True \<rparr>) = None
   \<and> handleCloseFeedback [Q2, Q1]
         (wrongDropped \<lparr> feedback := None, isDragOver := True, showHint := True \<rparr>)
       = wrongDropped \<lparr> feedback := None, timers := [] \<rparr>
   \<and> feedback (mount defaultSettings [Q1] True) = None
   \<and> handleCloseFeedback [Q1] (mount defaultSettings [Q1] True) = mount defaultSettings [Q1] True"
  using closeFeedback_without_feedback
          [of "wrongDropped \<lparr> feedback := None, isDragOver := True, showHint := True \<rparr>" "[Q2, Q1]"]
        closeFeedback_without_feedback [of "mount defaultSettings [Q1] True" "[Q1]"]
  by (simp add: session_defs sample_defs state_defs)

section \<open>Sessions never fail\<close>

lemma handleDrop_defined:
  "currentQuestion qs s \<noteq> None \<Longrightarrow> \<exists>s'. handleDrop qs s v = Inr s'"
  by (auto simp: handleDrop_def Let_def split: prod.splits)

lemma dispatch_total: "\<exists>s'. dispatch st qs s e = Inr s'"
proof (cases e)
  case (Drop v)
  show ?thesis
  proof (cases "enabled qs s e")
    case True
    then obtain s' where "handleDrop qs s v = Inr s'"
      using handleDrop_defined [of qs s v] by (auto simp: enabled_def)
    then show ?thesis
      using Drop True by (simp add: dispatch_def handler_def)
  next
    case False
    then show ?thesis
      using Drop by (simp add: dispatch_def)
  qed
qed (simp_all add: dispatch_def handler_def)

lemma run_total: "\<exists>s'. run st qs s evs = Inr s'"
proof (induction evs arbitrary: s)
  case Nil
  show ?case by simp
next
  case (Cons e evs)
  obtain s1 where "dispatch st qs s e = Inr s1"
    using dispatch_total by blast
  then show ?case
    using Cons.IH [of s1] by simp
qed

section \<open>A session without questions\<close>



lemma shuffleArray_Nil: "shuffleArray rnd [] = []"
  by (simp add: shuffleArray_def)










section \<open>Illustrations\<close>

lemma questionEffect_reduced:
  assumes "reduceMotion st"
  shows "isGenerating (questionEffect st qs s) = isGenerating s
       \<and> requests (questionEffect st qs s) = requests s
       \<and> (IllustrationRequest q \<in> set (outputs (questionEffect st qs s))) =
           (IllustrationRequest q \<in> set (outputs s))
       \<and> (currentQuestion qs s = Some q
            \<longrightarrow> illustrationUrl (questionEffect st qs s) = Some (illustration_src q))"
  using assms
  by (auto simp: questionEffect_def speak_def emit_def Let_def split: option.splits)

lemma dispatch_reduced:
  assumes "reduceMotion st" and "dispatch st qs s e = Inr s'"
    and "\<not> isGenerating s" and "requests s = []"
    and "\<forall>q. IllustrationRequest q \<notin> set (outputs s)"
    and "\<forall>q. currentQuestion qs s = Some q \<longrightarrow> illustrationUrl s = Some (illustration_src q)"
    and "isMounted s \<longrightarrow> NavigateHome \<notin> set (outputs s)"
  shows "\<not> isGenerating s' \<and> requests s' = []
       \<and> (\<forall>q. IllustrationRequest q \<notin> set (outputs s'))
       \<and> (\<forall>q. currentQuestion qs s' = Some q \<longrightarrow> illustrationUrl s' = Some (illustration_src q))
       \<and> (isMounted s' \<longrightarrow> NavigateHome \<notin> set (outputs s'))"
proof (cases e)
  case (Drop v)
  then show ?thesis
    using assms
    by (auto simp: dispatch_def handler_def afterHandler_def handleDrop_def vibrate_def emit_def
        setTimeout_def currentQuestion_def enabled_def Let_def
        split: if_splits option.splits)
next
  case CloseFeedback
  then show ?thesis
    using assms
    by (auto simp: dispatch_def handler_def afterHandler_def handleCloseFeedback_def
        resetAttemptState_fields questionEffect_def speak_def emit_def currentQuestion_def
        enabled_def Let_def
        split: if_splits option.splits)
next
  case DragEnter
  then show ?thesis
    using assms
    by (auto simp: dispatch_def handler_def afterHandler_def currentQuestion_def
        split: if_splits)
next
  case DragLeave
  then show ?thesis
    using assms
    by (auto simp: dispatch_def handler_def afterHandler_def currentQuestion_def
        split: if_splits)
next
  case HomeClick
  then show ?thesis
    using assms
    by (auto simp: dispatch_def handler_def afterHandler_def emit_def currentQuestion_def
        split: if_splits)
next
  case (TimerFire h)
  then show ?thesis
    using assms
    by (auto simp: dispatch_def timerFire_def clearTimeout_def currentQuestion_def Let_def
        split: if_splits)
next
  case (IllustrationDone q out)
  then show ?thesis
    using assms by (auto simp: dispatch_def)
qed

lemma mount_reduced:
  assumes "reduceMotion st"
  shows "\<not> isGenerating (mount st qs vib) \<and> requests (mount st qs vib) = []
       \<and> (\<forall>q. IllustrationRequest q \<notin> set (outputs (mount st qs vib)))
       \<and> (\<forall>q. currentQuestion qs (mount st qs vib) = Some q
             \<longrightarrow> illustrationUrl (mount st qs vib) = Some (illustration_src q))
       \<and> (isMounted (mount st qs vib) \<longrightarrow> NavigateHome \<notin> set (outputs (mount st qs vib)))"
  using assms
  by (auto simp: mount_def questionEffect_def speak_def emit_def initial_def currentQuestion_def
      Let_def split: option.splits)

lemma run_reduced:
  assumes "reduceMotion st"
  shows "run st qs s evs = Inr s' \<Longrightarrow>
     \<not> isGenerating s \<and> requests s = []
       \<and> (\<forall>q. IllustrationRequest q \<notin> set (outputs s))
       \<and> (\<forall>q. currentQuestion qs s = Some q \<longrightarrow> illustrationUrl s = Some (illustration_src q))
       \<and> (isMounted s \<longrightarrow> NavigateHome \<notin> set (outputs s)) \<Longrightarrow>
     \<not> isGenerating s' \<and> requests s' = []
       \<and> (\<forall>q. IllustrationRequest q \<notin> set (outputs s'))
       \<and> (\<forall>q. currentQuestion qs s' = Some q \<longrightarrow> illustrationUrl s' = Some (illustration_src q))
       \<and> (isMounted s' \<longrightarrow> NavigateHome \<notin> set (outputs s'))"
proof (induction evs arbitrary: s)
  case Nil
  then show ?case by simp
next
  case (Cons e evs)
  obtain s1 where d: "dispatch st qs s e = Inr s1"
    using dispatch_total by blast
  have r: "run st qs s1 evs = Inr s'"
    using Cons.prems(1) d by simp
  have "\<not> isGenerating s1 \<and> requests s1 = []
       \<and> (\<forall>q. IllustrationRequest q \<notin> set (outputs s1))
       \<and> (\<forall>q. currentQuestion qs s1 = Some q \<longrightarrow> illustrationUrl s1 = Some (illustration_src q))
       \<and> (isMounted s1 \<longrightarrow> NavigateHome \<notin> set (outputs s1))"
    using dispatch_reduced [OF assms d] Cons.prems(2) by blast
  then show ?case
    using Cons.IH [OF r] by blast
qed

text \<open>
  Claim C8. With reduced motion enabled, the effect that starts a question leaves the
  generating flag and the requests in flight as they are, outputs no illustration
  request, and sets the illustration URL to the question's default static illustration.
  Over a whole session, whatever the questions and the events: the session does not
  fail, the generating flag is false, no illustration request was ever issued and none
  is in flight, and while there is a current question the illustration URL is its
  default static illustration, which is what the screen shows.
\<close>

theorem reduced_motion_never_requests:
  assumes "reduceMotion st"
  shows "isGenerating (questionEffect st qs s0) = isGenerating s0
       \<and> requests (questionEffect st qs s0) = requests s0
       \<and> (IllustrationRequest q0 \<in> set (outputs (questionEffect st qs s0))) =
           (IllustrationRequest q0 \<in> set (outputs s0))
       \<and> (currentQuestion qs s0 = Some q0
            \<longrightarrow> illustrationUrl (questionEffect st qs s0) = Some (illustration_src q0))
       \<and> (\<exists>s. run st qs (mount st qs vib) evs = Inr s
           \<and> \<not> isGenerating s
           \<and> requests s = []
           \<and> (\<forall>q. IllustrationRequest q \<notin> set (outputs s))
           \<and> (\<forall>q. currentQuestion qs s = Some q
                 \<longrightarrow> illustrationUrl s = Some (illustration_src q)
                   \<and> displayedIllustration q s = Image (illustration_src q)))"
proof -
  obtain s where r: "run st qs (mount st qs vib) evs = Inr s"
    using run_total by blast
  have i: "\<not> isGenerating s \<and> requests s = []
       \<and> (\<forall>q. IllustrationRequest q \<notin> set (outputs s))
       \<and> (\<forall>q. currentQuestion qs s = Some q \<longrightarrow> illustrationUrl s = Some (illustration_src q))"
    using run_reduced [OF assms r] mount_reduced [OF assms] by blast
  then have "\<forall>q. currentQuestion qs s = Some q
      \<longrightarrow> displayedIllustration q s = Image (illustration_src q)"
    by (simp add: displayedIllustration_def)
  then have "\<exists>s. run st qs (mount st qs vib) evs = Inr s
           \<and> \<not> isGenerating s
           \<and> requests s = []
           \<and> (\<forall>q. IllustrationRequest q \<notin> set (outputs s))
           \<and> (\<forall>q. currentQuestion qs s = Some q
                 \<longrightarrow> illustrationUrl s = Some (illustration_src q)
                   \<and> displayedIllustration q s = Image (illustration_src q))"
    using r i by blast
  then show ?thesis
    using questionEffect_reduced [OF assms, of qs s0 q0] by blast
qed

theorem reduced_motion_never_requests_witness:
  "reduceMotion reducedMotion
   \<and> currentQuestion [Q2, Q1] (initial False) = Some Q2
   \<and> questionEffect reducedMotion [Q2, Q1] (initial False)
       = (initial False) \<lparr> illustrationUrl := Some ''q2.png'',
                            outputs := [CancelSpeech, Speak ''meow''] \<rparr>
   \<and> map_sum id (\<lambda>s. (currentQuestion [Q2, Q1] s, isGenerating s, requests s,
                        displayedIllustration Q1 s, outputs s))
       (run reducedMotion [Q2, Q1] (mount reducedMotion [Q2, Q1] False)
          [Drop ''cat'', CloseFeedback])
     = Inr (Some Q1, False, [], Image (illustration_src Q1),
            [CancelSpeech, Speak ''meow'', CancelSpeech, Speak ''2 + 2''])"
proof -
  have h: "reduceMotion reducedMotion"
    by (simp add: reducedMotion_def)
  show ?thesis
    using h reduced_motion_never_requests
      [OF h, of "[Q2, Q1]" "initial False" Q2 False "[Drop ''cat'', CloseFeedback]"]
    by (simp add: session_defs sample_defs displayedIllustration_def)
qed

text \<open>
  Claim C9 asks that after a failed request the screen shows the default illustration
  of the question and the generating flag is false because that request is over. The
  completion of \<^verbatim>\<open>generateIllustration\<close> is guarded by \<^verbatim>\<open>isMounted\<close> only, not by the
  question it was started for. In the session \<open>[Q2, Q1]\<close>, when the player has
  advanced to \<open>Q1\<close> and the request of \<open>Q2\<close> then fails, the screen of \<open>Q1\<close> shows
  the default illustration of \<open>Q2\<close>, and the generating flag is false while the
  request of \<open>Q1\<close> is still in flight.
\<close>

theorem stale_failure_shows_other_illustration:
  "map_sum id (currentQuestion [Q2, Q1])
     (run defaultSettings [Q2, Q1] (mount defaultSettings [Q2, Q1] False) failureAfterAdvance)
     = Inr (Some Q1)
   \<and> map_sum id (displayedIllustration Q1)
     (run defaultSettings [Q2, Q1] (mount defaultSettings [Q2, Q1] False) failureAfterAdvance)
     = Inr (Image ''q2.png'')
   \<and> illustration_src Q1 = ''q1.png''
   \<and> map_sum id requests
     (run defaultSettings [Q2, Q1] (mount defaultSettings [Q2, Q1] False) failureAfterAdvance)
     = Inr [Q1]
   \<and> map_sum id isGenerating
     (run defaultSettings [Q2, Q1] (mount defaultSettings [Q2, Q1] False) failureAfterAdvance)
     = Inr False"
  by (simp add: session_defs sample_defs event_defs displayedIllustration_def)

text \<open>
  What the failure of either step does while the component is mounted: the failure is
  logged, the illustration URL becomes the default static illustration of the question
  the request was started for, and the generating flag becomes false; rendered for that
  question, the screen shows its default illustration. The current question and the
  handlers that are enabled are the same as before.
\<close>


theorem illustration_failure_falls_back:
  assumes "isMounted s" and "out = PromptStepFailed \<or> out = ImageStepFailed"
  shows "generateIllustration_done q out s =
           s \<lparr> illustrationUrl := Some (illustration_src q), isGenerating := False,
               outputs := outputs s @ [ConsoleError] \<rparr>
       \<and> \<not> isGenerating (generateIllustration_done q out s)
       \<and> displayedIllustration q (generateIllustration_done q out s) = Image (illustration_src q)
       \<and> currentQuestion qs (generateIllustration_done q out s) = currentQuestion qs s
       \<and> (\<forall>e. enabled qs (generateIllustration_done q out s) e = enabled qs s e)"
  using assms
  by (auto simp: generateIllustration_done_def generateIllustration_finally_def emit_def
      displayedIllustration_def render_def currentQuestion_def enabled_def modalOpen_def
      split: option.splits)

theorem illustration_failure_falls_back_witness:
  "isMounted (mount defaultSettings [Q1] False)
   \<and> isGenerating (mount defaultSettings [Q1] False)
   \<and> requests (mount defaultSettings [Q1] False) = [Q1]
   \<and> map_sum id (\<lambda>s. (isGenerating s, illustrationUrl s, displayedIllustration Q1 s, outputs s))
       (dispatch defaultSettings [Q1] (mount defaultSettings [Q1] False)
          (IllustrationDone Q1 ImageStepFailed))
     = Inr (False, Some ''q1.png'', Image ''q1.png'', [IllustrationRequest Q1, ConsoleError])
   \<and> map_sum id (\<lambda>s. (isGenerating s, illustrationUrl s, displayedIllustration Q1 s, outputs s))
       (dispatch defaultSettings [Q1] (mount defaultSettings [Q1] False)
          (IllustrationDone Q1 PromptStepFailed))
     = Inr (False, Some ''q1.png'', Image ''q1.png'', [IllustrationRequest Q1, ConsoleError])"
  using illustration_failure_falls_back
          [of "(mount defaultSettings [Q1] False) \<lparr> requests := [] \<rparr>" ImageStepFailed Q1 "[Q1]"]
        illustration_failure_falls_back
          [of "(mount defaultSettings [Q1] False) \<lparr> requests := [] \<rparr>" PromptStepFailed Q1 "[Q1]"]
  by (simp add: session_defs sample_defs displayedIllustration_def)

end
